theory Spec2Isabelle
  imports Main "HOL-Library.Word"
begin

unbundle bit_operations_syntax

section \<open>The process resolver of pkg/security/probe/process_resolver_bpf.go\<close>

text \<open>
  The resolver keeps a userspace cache (a Go map from pid to a pointer to a
  \<open>ProcessResolverEntry\<close>) and reads and writes three kernel tables through the table
  accessor. The model threads one state, \<open>world\<close>, through every method: the userspace
  cache, the content of the three tables, and the trace of the calls the resolver has
  made to its collaborators, oldest first. The collaborators themselves (process
  enumeration, mount, container, path and time resolvers, /proc, the cookie generator,
  the codec of the cache entry, the probe manager) are not part of the file; their
  answers are the fields of an environment \<open>env\<close>. An answer may depend on the trace so
  far, so an environment can answer the same question differently at different moments
  of a run.
\<close>

subsection \<open>Data\<close>

type_synonym byte = "8 word"
type_synonym pid = "32 word"
type_synonym timestamp = int

text \<open>\<open>byteOrder\<close> is the host's byte order; it is declared outside the file and is a
  field of the environment.\<close>

datatype byte_order = LittleEndian | BigEndian

text \<open>Go errors. \<open>os.IsNotExist\<close> recognises the not-exist errors of the operating
  system; an error made by \<open>errors.New\<close> or wrapped by \<open>errors.Wrapf\<close> is not one.\<close>

datatype error = ErrNotExist | ErrOther string | ErrNew string | ErrWrapf error string

fun os_IsNotExist :: "error \<Rightarrow> bool" where
  "os_IsNotExist ErrNotExist = True"
| "os_IsNotExist _ = False"

text \<open>The userspace-cache value. Go's zero \<open>time.Time\<close> is \<open>0\<close> here.\<close>

record ProcessResolverEntry =
  PathnameStr :: string
  Timestamp :: timestamp

text \<open>Modelled from the spec: the declaration of \<open>ProcCacheEntry\<close> is not in the file.
  Its fields are those of the spec's data model; \<open>FileEvent\<close> is an opaque reference
  resolved by the path resolver.\<close>

type_synonym FileEvent = "byte list"

record ProcCacheEntry =
  ContainerID :: string
  Inode :: "64 word"
  OverlayNumLower :: "32 word"
  FileEvent :: FileEvent
  TimestampRaw :: "64 word"

definition ProcCacheEntry_zero :: ProcCacheEntry where
  "ProcCacheEntry_zero =
     \<lparr>ContainerID = [], Inode = 0, OverlayNumLower = 0, FileEvent = [], TimestampRaw = 0\<rparr>"

text \<open>A process as \<open>process.AllProcesses\<close> lists it: \<open>Pid\<close> is an int32, and
  \<open>uint32(proc.Pid)\<close> keeps its 32 bits.\<close>

record process =
  Pid :: "32 word"
  Exe :: string

record KProbe =
  Name :: string
  EntryFunc :: string

datatype stat_result = StatErr error | StatNotStat_t | StatOk "64 word"

datatype table_id = ProcCache | PidCookie | InodeNumlower

text \<open>The calls of the resolver to its collaborators. A write to a kernel table and a
  registration carry whether the call succeeded.\<close>

datatype event =
    EvGet table_id "byte list"
  | EvSetP table_id "byte list" "byte list" bool
  | EvDelete table_id "byte list"
  | EvAllProcesses
  | EvSyncCache pid
  | EvGetContainerID pid
  | EvReadlink pid
  | EvStat pid
  | EvNewCookie
  | EvResolveInode FileEvent
  | EvResolveMonotonicTimestamp "64 word"
  | EvRegisterTable string bool
  | EvTable string
  | EvRegisterKprobe KProbe bool
  | EvUnregisterKprobe KProbe bool

record env =
  byteOrder :: byte_order
  dentryPathKeyNotFound :: string
  process_AllProcesses :: "event list \<Rightarrow> error + process list"
  MountResolver_SyncCache :: "event list \<Rightarrow> pid \<Rightarrow> error option"
  ContainerResolver_GetContainerID :: "event list \<Rightarrow> pid \<Rightarrow> error + string"
  os_Readlink :: "event list \<Rightarrow> pid \<Rightarrow> error + string"
  os_Stat :: "event list \<Rightarrow> pid \<Rightarrow> stat_result"
  utils_NewCookie :: "event list \<Rightarrow> 32 word"
  Table_SetP_err :: "event list \<Rightarrow> table_id \<Rightarrow> byte list \<Rightarrow> byte list \<Rightarrow> error option"
  entry_Bytes :: "ProcCacheEntry \<Rightarrow> byte list"
  UnmarshalBinary :: "byte list \<Rightarrow> ProcCacheEntry option"
  FileEvent_ResolveInode :: "event list \<Rightarrow> FileEvent \<Rightarrow> string"
  TimeResolver_ResolveMonotonicTimestamp :: "event list \<Rightarrow> 64 word \<Rightarrow> timestamp"
  probe_RegisterTable :: "event list \<Rightarrow> string \<Rightarrow> error option"
  probe_Table :: "event list \<Rightarrow> string \<Rightarrow> bool"
  Module_RegisterKprobe :: "event list \<Rightarrow> KProbe \<Rightarrow> error option"
  Module_UnregisterKprobe :: "event list \<Rightarrow> KProbe \<Rightarrow> error option"

text \<open>The resolver and the tables it is bound to. A cache value is a pointer: \<open>None\<close>
  is Go's nil. The cells of \<open>inode_numlower\<close> are 32-bit numbers; the accessor hands
  them out as four bytes in the host's order.\<close>

record world =
  entryCache :: "pid \<rightharpoonup> ProcessResolverEntry option"
  procCacheMap :: "byte list \<rightharpoonup> byte list"
  pidCookieMap :: "byte list \<rightharpoonup> byte list"
  inodeNumlowerMap :: "byte list \<rightharpoonup> 32 word"
  trace :: "event list"

subsection \<open>Byte order\<close>

text \<open>\<open>PutUint32\<close>, \<open>PutUint64\<close> and \<open>Uint32\<close> of Go's encoding/binary, for both
  orders. Go's \<open>Uint32\<close> panics on a slice of fewer than four bytes; the only slice the
  resolver decodes is a cell of \<open>inode_numlower\<close>, which the accessor hands out as four
  bytes, so the last case below is never taken.\<close>

definition PutUint32 :: "byte_order \<Rightarrow> 32 word \<Rightarrow> byte list" where
  "PutUint32 bo v =
     (case bo of
        LittleEndian \<Rightarrow> [ucast v, ucast (drop_bit 8 v), ucast (drop_bit 16 v), ucast (drop_bit 24 v)]
      | BigEndian \<Rightarrow> [ucast (drop_bit 24 v), ucast (drop_bit 16 v), ucast (drop_bit 8 v), ucast v])"

definition PutUint64 :: "byte_order \<Rightarrow> 64 word \<Rightarrow> byte list" where
  "PutUint64 bo v =
     (case bo of
        LittleEndian \<Rightarrow>
          [ucast v, ucast (drop_bit 8 v), ucast (drop_bit 16 v), ucast (drop_bit 24 v),
           ucast (drop_bit 32 v), ucast (drop_bit 40 v), ucast (drop_bit 48 v), ucast (drop_bit 56 v)]
      | BigEndian \<Rightarrow>
          [ucast (drop_bit 56 v), ucast (drop_bit 48 v), ucast (drop_bit 40 v), ucast (drop_bit 32 v),
           ucast (drop_bit 24 v), ucast (drop_bit 16 v), ucast (drop_bit 8 v), ucast v])"

definition Uint32 :: "byte_order \<Rightarrow> byte list \<Rightarrow> 32 word" where
  "Uint32 bo b =
     (case b of
        b0 # b1 # b2 # b3 # _ \<Rightarrow>
          (case bo of
             LittleEndian \<Rightarrow>
               ucast b0 OR push_bit 8 (ucast b1) OR push_bit 16 (ucast b2) OR push_bit 24 (ucast b3)
           | BigEndian \<Rightarrow>
               ucast b3 OR push_bit 8 (ucast b2) OR push_bit 16 (ucast b1) OR push_bit 24 (ucast b0))
      | _ \<Rightarrow> 0)"

subsection \<open>The table accessor\<close>

text \<open>Modelled from the spec: the accessor (\<open>Get\<close>, \<open>SetP\<close>, \<open>Delete\<close> of
  \<open>ebpf.Table\<close>) is not in the file. \<open>Get\<close> fails exactly when the key is absent;
  \<open>SetP\<close> either fails and writes nothing, or stores the value under the key;
  \<open>Delete\<close> removes the key.\<close>

definition log :: "event \<Rightarrow> world \<Rightarrow> world" where
  "log e w = w\<lparr>trace := trace w @ [e]\<rparr>"

definition table_content :: "env \<Rightarrow> table_id \<Rightarrow> world \<Rightarrow> (byte list \<rightharpoonup> byte list)" where
  "table_content E t w =
     (case t of
        ProcCache \<Rightarrow> procCacheMap w
      | PidCookie \<Rightarrow> pidCookieMap w
      | InodeNumlower \<Rightarrow> (\<lambda>k. map_option (PutUint32 (byteOrder E)) (inodeNumlowerMap w k)))"

definition Table_Get :: "env \<Rightarrow> table_id \<Rightarrow> byte list \<Rightarrow> world \<Rightarrow> byte list option \<times> world" where
  "Table_Get E t key w = (table_content E t w key, log (EvGet t key) w)"

definition table_store :: "env \<Rightarrow> table_id \<Rightarrow> byte list \<Rightarrow> byte list \<Rightarrow> world \<Rightarrow> world" where
  "table_store E t key val w =
     (case t of
        ProcCache \<Rightarrow> w\<lparr>procCacheMap := (procCacheMap w)(key \<mapsto> val)\<rparr>
      | PidCookie \<Rightarrow> w\<lparr>pidCookieMap := (pidCookieMap w)(key \<mapsto> val)\<rparr>
      | InodeNumlower \<Rightarrow> w\<lparr>inodeNumlowerMap := (inodeNumlowerMap w)(key \<mapsto> Uint32 (byteOrder E) val)\<rparr>)"

definition Table_SetP :: "env \<Rightarrow> table_id \<Rightarrow> byte list \<Rightarrow> byte list \<Rightarrow> world \<Rightarrow> error option \<times> world" where
  "Table_SetP E t key val w =
     (case Table_SetP_err E (trace w) t key val of
        Some err \<Rightarrow> (Some err, log (EvSetP t key val False) w)
      | None \<Rightarrow> (None, log (EvSetP t key val True) (table_store E t key val w)))"

definition Table_Delete :: "table_id \<Rightarrow> byte list \<Rightarrow> world \<Rightarrow> world" where
  "Table_Delete t key w =
     log (EvDelete t key)
       (case t of
          ProcCache \<Rightarrow> w\<lparr>procCacheMap := (procCacheMap w)(key := None)\<rparr>
        | PidCookie \<Rightarrow> w\<lparr>pidCookieMap := (pidCookieMap w)(key := None)\<rparr>
        | InodeNumlower \<Rightarrow> w\<lparr>inodeNumlowerMap := (inodeNumlowerMap w)(key := None)\<rparr>)"

subsection \<open>AddEntry, DelEntry, resolve, Resolve\<close>

definition AddEntry :: "pid \<Rightarrow> ProcessResolverEntry option \<Rightarrow> world \<Rightarrow> world" where
  "AddEntry p entry w = w\<lparr>entryCache := (entryCache w)(p \<mapsto> entry)\<rparr>"

definition DelEntry :: "env \<Rightarrow> pid \<Rightarrow> world \<Rightarrow> world" where
  "DelEntry E p w =
     (let w1 = w\<lparr>entryCache := (entryCache w)(p := None)\<rparr>;
          pidb = PutUint32 (byteOrder E) p
      in Table_Delete PidCookie pidb w1)"

definition resolve :: "env \<Rightarrow> pid \<Rightarrow> world \<Rightarrow> ProcessResolverEntry option \<times> world" where
  "resolve E p w =
     (let pidb = PutUint32 (byteOrder E) p;
          (r1, w1) = Table_Get E PidCookie pidb w
      in case r1 of
           None \<Rightarrow> (None, w1)
         | Some cookieb \<Rightarrow>
            (let (r2, w2) = Table_Get E ProcCache cookieb w1
             in case r2 of
                  None \<Rightarrow> (None, w2)
                | Some entryb \<Rightarrow>
                   (case UnmarshalBinary E entryb of
                      None \<Rightarrow> (None, w2)
                    | Some procCacheEntry \<Rightarrow>
                       (let pathnameStr = FileEvent_ResolveInode E (trace w2) (FileEvent procCacheEntry);
                            w3 = log (EvResolveInode (FileEvent procCacheEntry)) w2
                        in if pathnameStr = dentryPathKeyNotFound E then (None, w3)
                           else
                            (let timestamp = TimeResolver_ResolveMonotonicTimestamp E (trace w3)
                                               (TimestampRaw procCacheEntry);
                                 w4 = log (EvResolveMonotonicTimestamp (TimestampRaw procCacheEntry)) w3;
                                 entry = \<lparr>PathnameStr = pathnameStr, Timestamp = timestamp\<rparr>
                             in (Some entry, AddEntry p (Some entry) w4))))))"

definition Resolve :: "env \<Rightarrow> pid \<Rightarrow> world \<Rightarrow> ProcessResolverEntry option \<times> world" where
  "Resolve E p w =
     (case entryCache w p of
        Some entry \<Rightarrow> (entry, w)
      | None \<Rightarrow> resolve E p w)"

subsection \<open>snapshotProcess\<close>

text \<open>\<open>utils.ProcExePath(pid)\<close> is the path /proc/pid/exe, so \<open>os.Readlink\<close> and
  \<open>os.Stat\<close> are asked by pid. The \<open>log.Debug\<close> lines are left out.\<close>

definition snapshotProcess :: "env \<Rightarrow> pid \<Rightarrow> world \<Rightarrow> bool \<times> world" where
  "snapshotProcess E p w =
     (let entry = ProcCacheEntry_zero;
          pidb = PutUint32 (byteOrder E) p;
          (r1, w1) = Table_Get E PidCookie pidb w
      in case r1 of
           Some _ \<Rightarrow> (False, w1)
         | None \<Rightarrow>
      (let r2 = MountResolver_SyncCache E (trace w1) p;
           w2 = log (EvSyncCache p) w1
       in if (case r2 of Some err \<Rightarrow> \<not> os_IsNotExist err | None \<Rightarrow> False) then (False, w2)
          else
      (let r3 = ContainerResolver_GetContainerID E (trace w2) p;
           w3 = log (EvGetContainerID p) w2
       in case r3 of
            Inl err \<Rightarrow> (False, w3)
          | Inr containerID \<Rightarrow>
      (let entry = entry\<lparr>ContainerID := containerID\<rparr>;
           r4 = os_Readlink E (trace w3) p;
           w4 = log (EvReadlink p) w3
       in case r4 of
            Inl err \<Rightarrow> (False, w4)
          | Inr pathnameStr \<Rightarrow>
      (let w5 = AddEntry p (Some \<lparr>PathnameStr = pathnameStr, Timestamp = 0\<rparr>) w4;
           r6 = os_Stat E (trace w5) p;
           w6 = log (EvStat p) w5
       in case r6 of
            StatErr err \<Rightarrow> (False, w6)
          | StatNotStat_t \<Rightarrow> (False, w6)
          | StatOk ino \<Rightarrow>
      (let entry = entry\<lparr>Inode := ino\<rparr>;
           inodeb = PutUint64 (byteOrder E) ino;
           (r7, w7) = Table_Get E InodeNumlower inodeb w6
       in case r7 of
            None \<Rightarrow> (False, w7)
          | Some numlowerb \<Rightarrow>
      (let entry = entry\<lparr>OverlayNumLower := Uint32 (byteOrder E) numlowerb\<rparr>;
           cookieb = PutUint32 (byteOrder E) (utils_NewCookie E (trace w7));
           w8 = log EvNewCookie w7;
           (r9, w9) = Table_SetP E ProcCache cookieb (entry_Bytes E entry) w8
       in case r9 of
            Some err \<Rightarrow> (False, w9)
          | None \<Rightarrow>
      (let (r10, w10) = Table_SetP E PidCookie pidb cookieb w9
       in case r10 of
            Some err \<Rightarrow> (False, w10)
          | None \<Rightarrow> (True, w10)))))))))"

subsection \<open>snapshot and Snapshot\<close>

text \<open>The loop of \<open>snapshot\<close> over the listed processes, with \<open>cacheModified\<close> as
  accumulator.\<close>

fun snapshot_loop :: "env \<Rightarrow> process list \<Rightarrow> bool \<Rightarrow> world \<Rightarrow> bool \<times> world" where
  "snapshot_loop E [] cacheModified w = (cacheModified, w)"
| "snapshot_loop E (proc # processes) cacheModified w =
     (if length (Exe proc) = 0 then snapshot_loop E processes cacheModified w
      else
       (let (r, w') = snapshotProcess E (Pid proc) w
        in snapshot_loop E processes (if r then True else cacheModified) w'))"

definition snapshot :: "env \<Rightarrow> world \<Rightarrow> error option \<times> world" where
  "snapshot E w =
     (let r = process_AllProcesses E (trace w);
          w1 = log EvAllProcesses w
      in case r of
           Inl err \<Rightarrow> (Some err, w1)
         | Inr processes \<Rightarrow>
            (let (cacheModified, w2) = snapshot_loop E processes False w1
             in if cacheModified then (Some (ErrNew ''cache modified''), w2)
                else (None, w2)))"

definition processSnapshotTables :: "string list" where
  "processSnapshotTables = [''inode_numlower'']"

definition processSnapshotProbes :: "KProbe list" where
  "processSnapshotProbes = [\<lparr>Name = ''getattr'', EntryFunc = ''kprobe/vfs_getattr''\<rparr>]"

fun register_tables :: "env \<Rightarrow> string list \<Rightarrow> world \<Rightarrow> error option \<times> world" where
  "register_tables E [] w = (None, w)"
| "register_tables E (t # ts) w =
     (case probe_RegisterTable E (trace w) t of
        Some err \<Rightarrow> (Some err, log (EvRegisterTable t False) w)
      | None \<Rightarrow> register_tables E ts (log (EvRegisterTable t True) w))"

fun register_kprobes :: "env \<Rightarrow> KProbe list \<Rightarrow> world \<Rightarrow> error option \<times> world" where
  "register_kprobes E [] w = (None, w)"
| "register_kprobes E (kp # kps) w =
     (case Module_RegisterKprobe E (trace w) kp of
        Some err \<Rightarrow>
          (Some (ErrWrapf err (''couldn't register kprobe '' @ Name kp)), log (EvRegisterKprobe kp False) w)
      | None \<Rightarrow> register_kprobes E kps (log (EvRegisterKprobe kp True) w))"

text \<open>The deferred function: every probe of the list is unregistered; a failure is
  only logged at debug level.\<close>

fun unregister_kprobes :: "env \<Rightarrow> KProbe list \<Rightarrow> world \<Rightarrow> world" where
  "unregister_kprobes E [] w = w"
| "unregister_kprobes E (kp # kps) w =
     (case Module_UnregisterKprobe E (trace w) kp of
        Some err \<Rightarrow> unregister_kprobes E kps (log (EvUnregisterKprobe kp False) w)
      | None \<Rightarrow> unregister_kprobes E kps (log (EvUnregisterKprobe kp True) w))"

function retry_loop :: "env \<Rightarrow> nat \<Rightarrow> world \<Rightarrow> error option \<times> world" where
  "retry_loop E retry w =
     (if retry < 5 then
        (case snapshot E w of
           (None, w') \<Rightarrow> (None, w')
         | (Some err, w') \<Rightarrow> retry_loop E (retry + 1) w')
      else (Some (ErrNew ''unable to snapshot processes''), w))"
  by pat_completeness auto
termination
  by (relation "measure (\<lambda>(E, retry, w). 5 - retry)") auto

text \<open>\<open>Snapshot\<close> up to the activation of the probes: the snapshot table is
  registered and bound, then the probes are registered. Each failure returns at once.\<close>

definition Snapshot_prepare :: "env \<Rightarrow> world \<Rightarrow> error option \<times> world" where
  "Snapshot_prepare E w =
     (case register_tables E processSnapshotTables w of
        (Some err, w1) \<Rightarrow> (Some err, w1)
      | (None, w1) \<Rightarrow>
         (let found = probe_Table E (trace w1) ''inode_numlower'';
              w2 = log (EvTable ''inode_numlower'') w1
          in if \<not> found then (Some (ErrNew ''inode_numlower BPF_HASH table doesn't exist''), w2)
             else register_kprobes E processSnapshotProbes w2))"

text \<open>The rest of \<open>Snapshot\<close>: the deferred function is installed only once the probes
  are registered, and runs after the retry loop whatever the loop returns.\<close>

definition Snapshot :: "env \<Rightarrow> world \<Rightarrow> error option \<times> world" where
  "Snapshot E w =
     (case Snapshot_prepare E w of
        (Some err, w3) \<Rightarrow> (Some err, w3)
      | (None, w3) \<Rightarrow>
         (let (r, w4) = retry_loop E 0 w3
          in (r, unregister_kprobes E processSnapshotProbes w4)))"

section \<open>Notions used by the properties\<close>

text \<open>The calls made between two states of one run.\<close>

definition new_events :: "world \<Rightarrow> world \<Rightarrow> event list" where
  "new_events w w' = drop (length (trace w)) (trace w')"

text \<open>The traces at which \<open>snapshotProcess\<close> asks the mount resolver, the container
  resolver and \<open>os.Readlink\<close>, when it gets that far.\<close>

definition at_SyncCache :: "env \<Rightarrow> pid \<Rightarrow> world \<Rightarrow> event list" where
  "at_SyncCache E p w = trace w @ [EvGet PidCookie (PutUint32 (byteOrder E) p)]"

definition at_GetContainerID :: "env \<Rightarrow> pid \<Rightarrow> world \<Rightarrow> event list" where
  "at_GetContainerID E p w = at_SyncCache E p w @ [EvSyncCache p]"

definition at_Readlink :: "env \<Rightarrow> pid \<Rightarrow> world \<Rightarrow> event list" where
  "at_Readlink E p w = at_GetContainerID E p w @ [EvGetContainerID p]"

text \<open>The mount sync answers with an error that is not a not-exist error.\<close>

definition sync_aborts :: "env \<Rightarrow> pid \<Rightarrow> world \<Rightarrow> bool" where
  "sync_aborts E p w =
     (case MountResolver_SyncCache E (at_SyncCache E p w) p of
        Some err \<Rightarrow> \<not> os_IsNotExist err
      | None \<Rightarrow> False)"

text \<open>The path that \<open>os.Readlink\<close> returns to \<open>snapshotProcess\<close>, or \<open>None\<close> when the
  insertion stops at the idempotency check, the mount sync, the container ID or the
  readlink itself.\<close>

definition reads_exe :: "env \<Rightarrow> pid \<Rightarrow> world \<Rightarrow> string option" where
  "reads_exe E p w =
     (if pidCookieMap w (PutUint32 (byteOrder E) p) \<noteq> None then None
      else if sync_aborts E p w then None
      else case ContainerResolver_GetContainerID E (at_GetContainerID E p w) p of
             Inl err \<Rightarrow> None
           | Inr containerID \<Rightarrow>
              (case os_Readlink E (at_Readlink E p w) p of
                 Inl err \<Rightarrow> None
               | Inr pathnameStr \<Rightarrow> Some pathnameStr))"

text \<open>Replaying a list of calls from a content \<open>pc\<close> of \<open>proc_cache\<close>: at every write of
  a cookie into \<open>pid_cookie\<close>, attempted or done, \<open>proc_cache\<close> has an entry for that
  cookie.\<close>

fun cookie_writes_backed :: "(byte list \<rightharpoonup> byte list) \<Rightarrow> event list \<Rightarrow> bool" where
  "cookie_writes_backed pc [] = True"
| "cookie_writes_backed pc (EvSetP t k v ok # es) =
     (case t of
        PidCookie \<Rightarrow> pc v \<noteq> None \<and> cookie_writes_backed pc es
      | ProcCache \<Rightarrow> cookie_writes_backed (if ok then pc(k \<mapsto> v) else pc) es
      | InodeNumlower \<Rightarrow> cookie_writes_backed pc es)"
| "cookie_writes_backed pc (EvDelete t k # es) =
     cookie_writes_backed (if t = ProcCache then pc(k := None) else pc) es"
| "cookie_writes_backed pc (e # es) = cookie_writes_backed pc es"

text \<open>The calls that one per-process insertion can make, and the calls of a pass.\<close>

definition process_step :: "event \<Rightarrow> bool" where
  "process_step e =
     (case e of
        EvGet t k \<Rightarrow> True
      | EvSetP t k v ok \<Rightarrow> True
      | EvSyncCache p \<Rightarrow> True
      | EvGetContainerID p \<Rightarrow> True
      | EvReadlink p \<Rightarrow> True
      | EvStat p \<Rightarrow> True
      | EvNewCookie \<Rightarrow> True
      | _ \<Rightarrow> False)"

definition pass_step :: "event \<Rightarrow> bool" where
  "pass_step e = (e = EvAllProcesses \<or> process_step e)"

text \<open>An insertion is a successful write of the pid's cookie, the last step of
  \<open>snapshotProcess\<close> before it returns true. A pass starts with one enumeration.\<close>

definition is_insertion :: "event \<Rightarrow> bool" where
  "is_insertion e = (case e of EvSetP t k v ok \<Rightarrow> t = PidCookie \<and> ok | _ \<Rightarrow> False)"

definition insertions :: "event list \<Rightarrow> nat" where
  "insertions evs = length (filter is_insertion evs)"

definition table_writes :: "event list \<Rightarrow> event list" where
  "table_writes evs =
     filter (\<lambda>e. case e of EvSetP t k v ok \<Rightarrow> True | EvDelete t k \<Rightarrow> True | _ \<Rightarrow> False) evs"

definition attempts :: "event list \<Rightarrow> nat" where
  "attempts evs = count_list evs EvAllProcesses"

definition registrations :: "event list \<Rightarrow> nat" where
  "registrations evs =
     length (filter (\<lambda>e. case e of EvRegisterKprobe kp ok \<Rightarrow> ok | _ \<Rightarrow> False) evs)"

definition unregistrations :: "event list \<Rightarrow> nat" where
  "unregistrations evs =
     length (filter (\<lambda>e. case e of EvUnregisterKprobe kp ok \<Rightarrow> True | _ \<Rightarrow> False) evs)"

text \<open>The state after \<open>n\<close> passes in a row.\<close>

definition after_passes :: "env \<Rightarrow> nat \<Rightarrow> world \<Rightarrow> world" where
  "after_passes E n w = ((\<lambda>w. snd (snapshot E w)) ^^ n) w"

text \<open>The entry as the spec constructs it directly from the kernel tables (4.4, steps 2
  to 5): the pid's cookie, the cookie's cache entry, its decoding, the path of its file
  event and the time of its raw timestamp, each resolver being asked at the moment
  \<open>resolve\<close> reaches it.\<close>

definition kernel_entry :: "env \<Rightarrow> pid \<Rightarrow> world \<Rightarrow> ProcessResolverEntry option" where
  "kernel_entry E p w =
     (case pidCookieMap w (PutUint32 (byteOrder E) p) of
        None \<Rightarrow> None
      | Some cookieb \<Rightarrow>
         (case procCacheMap w cookieb of
            None \<Rightarrow> None
          | Some entryb \<Rightarrow>
             (case UnmarshalBinary E entryb of
                None \<Rightarrow> None
              | Some c \<Rightarrow>
                 (let h = trace w @ [EvGet PidCookie (PutUint32 (byteOrder E) p), EvGet ProcCache cookieb];
                      path = FileEvent_ResolveInode E h (FileEvent c)
                  in if path = dentryPathKeyNotFound E then None
                     else Some \<lparr>PathnameStr = path,
                                Timestamp = TimeResolver_ResolveMonotonicTimestamp E
                                  (h @ [EvResolveInode (FileEvent c)]) (TimestampRaw c)\<rparr>))))"

section \<open>A concrete environment\<close>

text \<open>A little-endian host where every collaborator succeeds: two processes are listed,
  the second with an expired executable link; the codec is a toy one.\<close>

definition env0 :: env where
  "env0 =
     \<lparr>byteOrder = LittleEndian,
      dentryPathKeyNotFound = ''error: dentry path key not found'',
      process_AllProcesses = (\<lambda>h. Inr [\<lparr>Pid = 10, Exe = ''/bin/a''\<rparr>, \<lparr>Pid = 11, Exe = []\<rparr>]),
      MountResolver_SyncCache = (\<lambda>h q. None),
      ContainerResolver_GetContainerID = (\<lambda>h q. Inr ''c0''),
      os_Readlink = (\<lambda>h q. Inr ''/bin/a''),
      os_Stat = (\<lambda>h q. StatOk 7),
      utils_NewCookie = (\<lambda>h. 99),
      Table_SetP_err = (\<lambda>h t k v. None),
      entry_Bytes = (\<lambda>e. [1, 2, 3]),
      UnmarshalBinary = (\<lambda>b. if b = [] then None else Some ProcCacheEntry_zero),
      FileEvent_ResolveInode = (\<lambda>h f. ''/bin/a''),
      TimeResolver_ResolveMonotonicTimestamp = (\<lambda>h raw. 100 + uint raw),
      probe_RegisterTable = (\<lambda>h t. None),
      probe_Table = (\<lambda>h t. True),
      Module_RegisterKprobe = (\<lambda>h kp. None),
      Module_UnregisterKprobe = (\<lambda>h kp. None)\<rparr>"

definition world0 :: world where
  "world0 =
     \<lparr>entryCache = Map.empty, procCacheMap = Map.empty, pidCookieMap = Map.empty,
      inodeNumlowerMap = Map.empty, trace = []\<rparr>"

text \<open>The same with the overlay depth of inode 7 already in \<open>inode_numlower\<close>.\<close>

definition world1 :: world where
  "world1 = world0\<lparr>inodeNumlowerMap := [PutUint64 LittleEndian 7 \<mapsto> 2]\<rparr>"

text \<open>The state of \<open>world1\<close> once pid 10 has been inserted with cookie 99.\<close>

definition world2 :: world where
  "world2 =
     world1\<lparr>entryCache := Map.empty,
            procCacheMap := [PutUint32 LittleEndian 99 \<mapsto> [1, 2, 3]],
            pidCookieMap := [PutUint32 LittleEndian 10 \<mapsto> PutUint32 LittleEndian 99]\<rparr>"

text \<open>The state of \<open>world1\<close> after \<open>snapshotProcess\<close> has inserted pid 10.\<close>

definition world1_inserted :: world where
  "world1_inserted =
     world1\<lparr>entryCache := [10 \<mapsto> Some \<lparr>PathnameStr = ''/bin/a'', Timestamp = 0\<rparr>],
            procCacheMap := [PutUint32 LittleEndian 99 \<mapsto> [1, 2, 3]],
            pidCookieMap := [PutUint32 LittleEndian 10 \<mapsto> PutUint32 LittleEndian 99],
            trace := [EvGet PidCookie (PutUint32 LittleEndian 10), EvSyncCache 10, EvGetContainerID 10,
                      EvReadlink 10, EvStat 10, EvGet InodeNumlower (PutUint64 LittleEndian 7),
                      EvNewCookie, EvSetP ProcCache (PutUint32 LittleEndian 99) [1, 2, 3] True,
                      EvSetP PidCookie (PutUint32 LittleEndian 10) (PutUint32 LittleEndian 99) True]\<rparr>"

text \<open>Environments where one collaborator fails: every table write, \<open>os.Stat\<close>, the
  mount sync (with a not-exist error, and with another error), and the enumeration.\<close>

definition env_full :: env where
  "env_full = env0\<lparr>Table_SetP_err := \<lambda>h t k v. Some (ErrOther ''full'')\<rparr>"

definition env_nostat :: env where
  "env_nostat = env0\<lparr>os_Stat := \<lambda>h q. StatErr ErrNotExist\<rparr>"

definition env_gone :: env where
  "env_gone = env0\<lparr>MountResolver_SyncCache := \<lambda>h q. Some ErrNotExist\<rparr>"

definition env_nomount :: env where
  "env_nomount = env0\<lparr>MountResolver_SyncCache := \<lambda>h q. Some (ErrOther ''permission denied'')\<rparr>"

definition env_noproc :: env where
  "env_noproc = env0\<lparr>process_AllProcesses := \<lambda>h. Inl (ErrOther ''cannot read /proc'')\<rparr>"

text \<open>The state of \<open>world2\<close> after \<open>Resolve\<close> of pid 10.\<close>

definition world2_resolved :: world where
  "world2_resolved =
     world2\<lparr>entryCache := [10 \<mapsto> Some \<lparr>PathnameStr = ''/bin/a'', Timestamp = 100\<rparr>],
            trace := [EvGet PidCookie (PutUint32 LittleEndian 10), EvGet ProcCache (PutUint32 LittleEndian 99),
                      EvResolveInode [], EvResolveMonotonicTimestamp 0]\<rparr>"

text \<open>Worlds where the fallback of \<open>Resolve\<close> stops: the cookie has no cache entry, and
  the cache entry has bytes the codec refuses. An environment whose path resolver knows
  no path.\<close>

definition world2_orphan :: world where
  "world2_orphan = world2\<lparr>procCacheMap := Map.empty\<rparr>"

definition world2_garbled :: world where
  "world2_garbled = world2\<lparr>procCacheMap := [PutUint32 LittleEndian 99 \<mapsto> []]\<rparr>"

definition env_nopath :: env where
  "env_nopath = env0\<lparr>FileEvent_ResolveInode := \<lambda>h f. ''error: dentry path key not found''\<rparr>"

section \<open>Properties\<close>

subsection \<open>Calls between states\<close>

lemma new_events_self: "new_events w w = []"
  by (simp add: new_events_def)

lemma new_events_append:
  "trace w1 = trace w @ a \<Longrightarrow> trace w2 = trace w1 @ b \<Longrightarrow> new_events w w2 = a @ b"
  by (simp add: new_events_def)

lemma new_events_trans:
  assumes "trace w1 = trace w @ new_events w w1" and "trace w2 = trace w1 @ new_events w1 w2"
  shows "new_events w w2 = new_events w w1 @ new_events w1 w2"
    and "trace w2 = trace w @ new_events w w2"
proof -
  show eq: "new_events w w2 = new_events w w1 @ new_events w1 w2"
    by (rule new_events_append [OF assms])
  show "trace w2 = trace w @ new_events w w2"
    unfolding eq using assms by simp
qed

lemma new_events_log: "new_events w (log e w) = [e]"
  by (simp add: new_events_def log_def)

subsection \<open>Byte order\<close>

lemma Uint32_PutUint32: "Uint32 bo (PutUint32 bo v) = v"
proof -
  have aux: "\<And>n::nat. \<not> n - 16 < 8 \<Longrightarrow> 24 + (n - 24) = n"
    by arith
  show ?thesis
    by (cases bo; simp add: PutUint32_def Uint32_def; rule bit_word_eqI; auto simp add: bit_simps)
       (metis aux)+
qed

lemma PutUint32_inject: "PutUint32 bo a = PutUint32 bo b \<longleftrightarrow> a = b"
  by (metis Uint32_PutUint32)

subsection \<open>snapshotProcess, path by path\<close>

lemmas table_defs = Table_Get_def Table_SetP_def Table_Delete_def table_content_def table_store_def
  log_def AddEntry_def
lemmas at_defs = at_SyncCache_def at_GetContainerID_def at_Readlink_def sync_aborts_def reads_exe_def
lemmas step_splits = option.splits sum.splits stat_result.splits prod.splits if_splits

lemma snapshotProcess_hit:
  "pidCookieMap w (PutUint32 (byteOrder E) p) = Some c \<Longrightarrow>
   snapshotProcess E p w = (False, w\<lparr>trace := trace w @ [EvGet PidCookie (PutUint32 (byteOrder E) p)]\<rparr>)"
  by (simp add: snapshotProcess_def Table_Get_def table_content_def log_def)

lemma snapshotProcess_sync_abort:
  "pidCookieMap w (PutUint32 (byteOrder E) p) = None \<Longrightarrow> sync_aborts E p w \<Longrightarrow>
   snapshotProcess E p w =
     (False, w\<lparr>trace := trace w @ [EvGet PidCookie (PutUint32 (byteOrder E) p), EvSyncCache p]\<rparr>)"
  by (auto simp add: snapshotProcess_def Table_Get_def table_content_def log_def at_defs
      split: option.splits)

lemma snapshotProcess_trace:
  "snapshotProcess E p w = (r, w') \<Longrightarrow> trace w' = trace w @ new_events w w'"
  by (auto simp add: snapshotProcess_def new_events_def table_defs Let_def split: step_splits)

lemma snapshotProcess_steps:
  "snapshotProcess E p w = (r, w') \<Longrightarrow> list_all process_step (new_events w w')"
  by (auto simp add: snapshotProcess_def new_events_def process_step_def table_defs Let_def
      split: step_splits)

lemma snapshotProcess_insertions:
  "snapshotProcess E p w = (r, w') \<Longrightarrow> insertions (new_events w w') = (if r then 1 else 0)"
  by (auto simp add: snapshotProcess_def new_events_def insertions_def is_insertion_def table_defs
      Let_def split: step_splits)

lemma snapshotProcess_no_exe:
  "snapshotProcess E p w = (r, w') \<Longrightarrow> reads_exe E p w = None \<Longrightarrow>
   \<not> r \<and> entryCache w' = entryCache w"
  by (auto simp add: snapshotProcess_def table_defs at_defs Let_def split: step_splits)

lemma snapshotProcess_exe:
  "snapshotProcess E p w = (r, w') \<Longrightarrow> reads_exe E p w = Some path \<Longrightarrow>
   entryCache w' = (entryCache w)(p \<mapsto> Some \<lparr>PathnameStr = path, Timestamp = 0\<rparr>)"
  by (auto simp add: snapshotProcess_def table_defs at_defs Let_def split: step_splits)

lemma snapshotProcess_backed:
  "snapshotProcess E p w = (r, w') \<Longrightarrow> cookie_writes_backed (procCacheMap w) (new_events w w')"
  by (auto simp add: snapshotProcess_def new_events_def table_defs Let_def split: step_splits)

lemma snapshotProcess_pointer_event:
  "snapshotProcess E p w = (r, w') \<Longrightarrow> EvSetP PidCookie k c ok \<in> set (new_events w w') \<Longrightarrow>
   k = PutUint32 (byteOrder E) p \<and> r = ok \<and>
   (\<exists>ino v. new_events w w' =
      [EvGet PidCookie k, EvSyncCache p, EvGetContainerID p, EvReadlink p, EvStat p,
       EvGet InodeNumlower (PutUint64 (byteOrder E) ino), EvNewCookie,
       EvSetP ProcCache c v True, EvSetP PidCookie k c ok])"
  by (auto simp add: snapshotProcess_def new_events_def table_defs Let_def split: step_splits)

lemma snapshotProcess_cache_failed:
  "snapshotProcess E p w = (r, w') \<Longrightarrow> EvSetP ProcCache c v False \<in> set (new_events w w') \<Longrightarrow>
   EvSetP PidCookie k c' ok \<notin> set (new_events w w')"
  by (auto simp add: snapshotProcess_def new_events_def table_defs Let_def split: step_splits)

lemma snapshotProcess_pointer_state:
  "snapshotProcess E p w = (r, w') \<Longrightarrow> pidCookieMap w' k = Some c \<Longrightarrow> pidCookieMap w k \<noteq> Some c \<Longrightarrow>
   k = PutUint32 (byteOrder E) p \<and> procCacheMap w' c \<noteq> None"
  by (auto simp add: snapshotProcess_def table_defs Let_def split: step_splits)

lemma snapshotProcess_sync_tolerant:
  "MountResolver_SyncCache E (at_SyncCache E p w) p = Some err \<Longrightarrow> os_IsNotExist err \<Longrightarrow>
   snapshotProcess E p w = snapshotProcess (E\<lparr>MountResolver_SyncCache := \<lambda>h q. None\<rparr>) p w"
  by (simp add: snapshotProcess_def table_defs at_defs Let_def
      cong: option.case_cong sum.case_cong stat_result.case_cong if_cong)

subsection \<open>Concrete runs\<close>

lemmas world_defs = world0_def world1_def world2_def world1_inserted_def env0_def env_full_def
  env_nostat_def env_gone_def env_nomount_def env_noproc_def ProcCacheEntry_zero_def
  world2_resolved_def world2_orphan_def world2_garbled_def env_nopath_def

lemma run_world1: "snapshotProcess env0 10 world1 = (True, world1_inserted)"
  by (simp add: snapshotProcess_def table_defs world_defs Let_def)

lemma run_world1_full:
  "snapshotProcess env_full 10 world1 =
     (False,
      world1\<lparr>entryCache := [10 \<mapsto> Some \<lparr>PathnameStr = ''/bin/a'', Timestamp = 0\<rparr>],
             trace := [EvGet PidCookie (PutUint32 LittleEndian 10), EvSyncCache 10, EvGetContainerID 10,
                       EvReadlink 10, EvStat 10, EvGet InodeNumlower (PutUint64 LittleEndian 7),
                       EvNewCookie, EvSetP ProcCache (PutUint32 LittleEndian 99) [1, 2, 3] False]\<rparr>)"
  by (simp add: snapshotProcess_def table_defs world_defs Let_def)

lemma run_world1_nostat:
  "snapshotProcess env_nostat 10 world1 =
     (False,
      world1\<lparr>entryCache := [10 \<mapsto> Some \<lparr>PathnameStr = ''/bin/a'', Timestamp = 0\<rparr>],
             trace := [EvGet PidCookie (PutUint32 LittleEndian 10), EvSyncCache 10, EvGetContainerID 10,
                       EvReadlink 10, EvStat 10]\<rparr>)"
  by (simp add: snapshotProcess_def table_defs world_defs Let_def)

text \<open>
  Claim C1. Whatever \<open>snapshotProcess\<close> returns for a pid: replaying its calls from the
  content of \<open>proc_cache\<close> at the start, every write of a cookie into \<open>pid_cookie\<close> finds
  an entry of \<open>proc_cache\<close> under that cookie; a write into \<open>pid_cookie\<close> is for this pid
  and comes right after the successful insertion into \<open>proc_cache\<close> under the same cookie;
  when the insertion into \<open>proc_cache\<close> fails, no write into \<open>pid_cookie\<close> is attempted;
  and every entry of \<open>pid_cookie\<close> that the call created points to an entry of
  \<open>proc_cache\<close>.
\<close>

theorem snapshotProcess_cache_before_cookie:
  assumes "snapshotProcess E p w = (r, w')"
  shows "cookie_writes_backed (procCacheMap w) (new_events w w') \<and>
    (\<forall>k c ok. EvSetP PidCookie k c ok \<in> set (new_events w w') \<longrightarrow>
       k = PutUint32 (byteOrder E) p \<and>
       (\<exists>ino v. new_events w w' =
          [EvGet PidCookie k, EvSyncCache p, EvGetContainerID p, EvReadlink p, EvStat p,
           EvGet InodeNumlower (PutUint64 (byteOrder E) ino), EvNewCookie,
           EvSetP ProcCache c v True, EvSetP PidCookie k c ok])) \<and>
    (\<forall>c v. EvSetP ProcCache c v False \<in> set (new_events w w') \<longrightarrow>
       (\<forall>k c' ok. EvSetP PidCookie k c' ok \<notin> set (new_events w w'))) \<and>
    (\<forall>k c. pidCookieMap w' k = Some c \<and> pidCookieMap w k \<noteq> Some c \<longrightarrow>
       k = PutUint32 (byteOrder E) p \<and> procCacheMap w' c \<noteq> None)"
proof (intro conjI allI impI)
  show "cookie_writes_backed (procCacheMap w) (new_events w w')"
    by (rule snapshotProcess_backed [OF assms])
next
  fix k c ok
  assume "EvSetP PidCookie k c ok \<in> set (new_events w w')"
  from snapshotProcess_pointer_event [OF assms this]
  show "k = PutUint32 (byteOrder E) p"
    and "\<exists>ino v. new_events w w' =
          [EvGet PidCookie k, EvSyncCache p, EvGetContainerID p, EvReadlink p, EvStat p,
           EvGet InodeNumlower (PutUint64 (byteOrder E) ino), EvNewCookie,
           EvSetP ProcCache c v True, EvSetP PidCookie k c ok]"
    by blast+
next
  fix c v k c' ok
  assume "EvSetP ProcCache c v False \<in> set (new_events w w')"
  then show "EvSetP PidCookie k c' ok \<notin> set (new_events w w')"
    by (rule snapshotProcess_cache_failed [OF assms])
next
  fix k c
  assume "pidCookieMap w' k = Some c \<and> pidCookieMap w k \<noteq> Some c"
  then show "k = PutUint32 (byteOrder E) p" and "procCacheMap w' c \<noteq> None"
    using snapshotProcess_pointer_state [OF assms] by blast+
qed


text \<open>
  Claim C5. For a pid that already has an entry in \<open>pid_cookie\<close>, \<open>snapshotProcess\<close>
  returns false after the one read of \<open>pid_cookie\<close>: the cache and the tables are as
  before and no other call is made. A second call does the same, and the two calls
  together write no kernel table.
\<close>

theorem snapshotProcess_idempotent:
  assumes "pidCookieMap w (PutUint32 (byteOrder E) p) \<noteq> None"
  shows "snapshotProcess E p w =
           (False, w\<lparr>trace := trace w @ [EvGet PidCookie (PutUint32 (byteOrder E) p)]\<rparr>) \<and>
         snapshotProcess E p (snd (snapshotProcess E p w)) =
           (False, w\<lparr>trace := trace w @ [EvGet PidCookie (PutUint32 (byteOrder E) p),
                                           EvGet PidCookie (PutUint32 (byteOrder E) p)]\<rparr>) \<and>
         table_writes (new_events w (snd (snapshotProcess E p (snd (snapshotProcess E p w))))) = []"
proof -
  let ?g = "EvGet PidCookie (PutUint32 (byteOrder E) p)"
  obtain c where c: "pidCookieMap w (PutUint32 (byteOrder E) p) = Some c"
    using assms by blast
  have first: "snapshotProcess E p w = (False, w\<lparr>trace := trace w @ [?g]\<rparr>)"
    by (rule snapshotProcess_hit [OF c])
  have "pidCookieMap (w\<lparr>trace := trace w @ [?g]\<rparr>) (PutUint32 (byteOrder E) p) = Some c"
    using c by simp
  from snapshotProcess_hit [OF this]
  have second: "snapshotProcess E p (w\<lparr>trace := trace w @ [?g]\<rparr>) = (False, w\<lparr>trace := trace w @ [?g, ?g]\<rparr>)"
    by simp
  show ?thesis
    by (simp add: first second new_events_def table_writes_def)
qed

theorem snapshotProcess_idempotent_witness:
  "pidCookieMap world2 (PutUint32 (byteOrder env0) 10) \<noteq> None \<and>
   snapshotProcess env0 10 world2 =
     (False, world2\<lparr>trace := trace world2 @ [EvGet PidCookie (PutUint32 (byteOrder env0) 10)]\<rparr>) \<and>
   snapshotProcess env0 10 (snd (snapshotProcess env0 10 world2)) =
     (False, world2\<lparr>trace := trace world2 @ [EvGet PidCookie (PutUint32 (byteOrder env0) 10),
                                               EvGet PidCookie (PutUint32 (byteOrder env0) 10)]\<rparr>) \<and>
   table_writes (new_events world2 (snd (snapshotProcess env0 10 (snd (snapshotProcess env0 10 world2))))) = []"
proof -
  have h: "pidCookieMap world2 (PutUint32 (byteOrder env0) 10) \<noteq> None"
    by (simp add: world_defs)
  show ?thesis
    using h snapshotProcess_idempotent [OF h] by blast
qed

text \<open>
  Claim C6. When \<open>snapshotProcess\<close> reaches \<open>os.Readlink\<close> and the link is read, the
  userspace cache holds, when the function returns, the provisional entry with that path
  (and the zero timestamp) for the pid, whatever the function returns: a later failure of
  the stat, of the overlay lookup or of the publication does not undo the write.
\<close>

theorem snapshotProcess_prefills_cache:
  assumes "snapshotProcess E p w = (r, w')" and "reads_exe E p w = Some path"
  shows "entryCache w' = (entryCache w)(p \<mapsto> Some \<lparr>PathnameStr = path, Timestamp = 0\<rparr>)"
  by (rule snapshotProcess_exe [OF assms])

theorem snapshotProcess_prefills_cache_witness:
  "snapshotProcess env_nostat 10 world1 =
     (False,
      world1\<lparr>entryCache := [10 \<mapsto> Some \<lparr>PathnameStr = ''/bin/a'', Timestamp = 0\<rparr>],
             trace := [EvGet PidCookie (PutUint32 LittleEndian 10), EvSyncCache 10, EvGetContainerID 10,
                       EvReadlink 10, EvStat 10]\<rparr>) \<and>
   reads_exe env_nostat 10 world1 = Some ''/bin/a'' \<and>
   entryCache
     (world1\<lparr>entryCache := [10 \<mapsto> Some \<lparr>PathnameStr = ''/bin/a'', Timestamp = 0\<rparr>],
             trace := [EvGet PidCookie (PutUint32 LittleEndian 10), EvSyncCache 10, EvGetContainerID 10,
                       EvReadlink 10, EvStat 10]\<rparr>) =
     (entryCache world1)(10 \<mapsto> Some \<lparr>PathnameStr = ''/bin/a'', Timestamp = 0\<rparr>)"
proof -
  have h: "reads_exe env_nostat 10 world1 = Some ''/bin/a''"
    by (simp add: at_defs world_defs)
  show ?thesis
    using run_world1_nostat h snapshotProcess_prefills_cache [OF run_world1_nostat h] by blast
qed

theorem snapshotProcess_cache_before_cookie_witness:
  "snapshotProcess env0 10 world1 = (True, world1_inserted) \<and>
   EvSetP PidCookie (PutUint32 LittleEndian 10) (PutUint32 LittleEndian 99) True
     \<in> set (new_events world1 world1_inserted) \<and>
   cookie_writes_backed (procCacheMap world1) (new_events world1 world1_inserted) \<and>
   (\<exists>ino v. new_events world1 world1_inserted =
      [EvGet PidCookie (PutUint32 LittleEndian 10), EvSyncCache 10, EvGetContainerID 10, EvReadlink 10,
       EvStat 10, EvGet InodeNumlower (PutUint64 (byteOrder env0) ino), EvNewCookie,
       EvSetP ProcCache (PutUint32 LittleEndian 99) v True,
       EvSetP PidCookie (PutUint32 LittleEndian 10) (PutUint32 LittleEndian 99) True]) \<and>
   pidCookieMap world1_inserted (PutUint32 LittleEndian 10) = Some (PutUint32 LittleEndian 99) \<and>
   pidCookieMap world1 (PutUint32 LittleEndian 10) \<noteq> Some (PutUint32 LittleEndian 99) \<and>
   procCacheMap world1_inserted (PutUint32 LittleEndian 99) \<noteq> None"
proof -
  note T = snapshotProcess_cache_before_cookie [OF run_world1]
  have m: "EvSetP PidCookie (PutUint32 LittleEndian 10) (PutUint32 LittleEndian 99) True
             \<in> set (new_events world1 world1_inserted)"
    by (simp add: new_events_def world_defs)
  have p: "pidCookieMap world1_inserted (PutUint32 LittleEndian 10) = Some (PutUint32 LittleEndian 99) \<and>
           pidCookieMap world1 (PutUint32 LittleEndian 10) \<noteq> Some (PutUint32 LittleEndian 99)"
    by (simp add: world_defs)
  show ?thesis
    using run_world1 m p T by blast
qed

subsection \<open>Mount sync and early exits\<close>

lemma reads_exe_None_iff:
  "reads_exe E p w = None \<longleftrightarrow>
     pidCookieMap w (PutUint32 (byteOrder E) p) \<noteq> None \<or> sync_aborts E p w \<or>
     (\<exists>err. ContainerResolver_GetContainerID E (at_GetContainerID E p w) p = Inl err) \<or>
     (\<exists>err. os_Readlink E (at_Readlink E p w) p = Inl err)"
  by (auto simp add: reads_exe_def split: sum.splits)

lemma snapshot_loop_sync_abort:
  assumes "length (Exe proc) \<noteq> 0"
    and "pidCookieMap w (PutUint32 (byteOrder E) (Pid proc)) = None"
    and "sync_aborts E (Pid proc) w"
  shows "snapshot_loop E (proc # processes) cacheModified w =
         snapshot_loop E processes cacheModified
           (w\<lparr>trace := trace w @ [EvGet PidCookie (PutUint32 (byteOrder E) (Pid proc)),
                                    EvSyncCache (Pid proc)]\<rparr>)"
  using assms(1) by (simp add: snapshotProcess_sync_abort [OF assms(2,3)])

text \<open>
  Claim C9. When the mount sync of \<open>snapshotProcess\<close> answers with a not-exist error, the
  call does what it does in the environment whose mount sync succeeds. When it answers
  with any other error, the call returns false after the read of \<open>pid_cookie\<close> and the
  sync, with the cache and the tables as before; and the loop of the pass goes on with
  the processes that follow.
\<close>

theorem snapshotProcess_mount_sync:
  "(\<forall>err. MountResolver_SyncCache E (at_SyncCache E p w) p = Some err \<and> os_IsNotExist err \<longrightarrow>
      snapshotProcess E p w = snapshotProcess (E\<lparr>MountResolver_SyncCache := \<lambda>h q. None\<rparr>) p w) \<and>
   (\<forall>err. pidCookieMap w (PutUint32 (byteOrder E) p) = None \<and>
      MountResolver_SyncCache E (at_SyncCache E p w) p = Some err \<and> \<not> os_IsNotExist err \<longrightarrow>
      snapshotProcess E p w =
        (False, w\<lparr>trace := trace w @ [EvGet PidCookie (PutUint32 (byteOrder E) p), EvSyncCache p]\<rparr>) \<and>
      table_writes (new_events w (snd (snapshotProcess E p w))) = [] \<and>
      (\<forall>proc processes cacheModified. Pid proc = p \<and> length (Exe proc) \<noteq> 0 \<longrightarrow>
         snapshot_loop E (proc # processes) cacheModified w =
         snapshot_loop E processes cacheModified
           (w\<lparr>trace := trace w @ [EvGet PidCookie (PutUint32 (byteOrder E) p), EvSyncCache p]\<rparr>)))"
proof (intro conjI allI impI)
  fix err
  assume "MountResolver_SyncCache E (at_SyncCache E p w) p = Some err \<and> os_IsNotExist err"
  then show "snapshotProcess E p w = snapshotProcess (E\<lparr>MountResolver_SyncCache := \<lambda>h q. None\<rparr>) p w"
    using snapshotProcess_sync_tolerant by blast
next
  fix err
  assume a: "pidCookieMap w (PutUint32 (byteOrder E) p) = None \<and>
      MountResolver_SyncCache E (at_SyncCache E p w) p = Some err \<and> \<not> os_IsNotExist err"
  then have miss: "pidCookieMap w (PutUint32 (byteOrder E) p) = None" and ab: "sync_aborts E p w"
    by (simp_all add: sync_aborts_def)
  show r: "snapshotProcess E p w =
        (False, w\<lparr>trace := trace w @ [EvGet PidCookie (PutUint32 (byteOrder E) p), EvSyncCache p]\<rparr>)"
    by (rule snapshotProcess_sync_abort [OF miss ab])
  show "table_writes (new_events w (snd (snapshotProcess E p w))) = []"
    by (simp add: r new_events_def table_writes_def)
  fix proc :: process and processes cacheModified
  assume "Pid proc = p \<and> length (Exe proc) \<noteq> 0"
  then show "snapshot_loop E (proc # processes) cacheModified w =
         snapshot_loop E processes cacheModified
           (w\<lparr>trace := trace w @ [EvGet PidCookie (PutUint32 (byteOrder E) p), EvSyncCache p]\<rparr>)"
    using snapshot_loop_sync_abort [of proc w E processes cacheModified] miss ab by auto
qed

lemma run_world1_gone: "snapshotProcess env_gone 10 world1 = (True, world1_inserted)"
  by (simp add: snapshotProcess_def table_defs world_defs Let_def)

theorem snapshotProcess_mount_sync_witness:
  "MountResolver_SyncCache env_gone (at_SyncCache env_gone 10 world1) 10 = Some ErrNotExist \<and>
   os_IsNotExist ErrNotExist \<and>
   snapshotProcess env_gone 10 world1 =
     snapshotProcess (env_gone\<lparr>MountResolver_SyncCache := \<lambda>h q. None\<rparr>) 10 world1 \<and>
   snapshotProcess env_gone 10 world1 = (True, world1_inserted) \<and>
   pidCookieMap world1 (PutUint32 (byteOrder env_nomount) 10) = None \<and>
   MountResolver_SyncCache env_nomount (at_SyncCache env_nomount 10 world1) 10
     = Some (ErrOther ''permission denied'') \<and>
   \<not> os_IsNotExist (ErrOther ''permission denied'') \<and>
   snapshotProcess env_nomount 10 world1 =
     (False, world1\<lparr>trace := trace world1 @ [EvGet PidCookie (PutUint32 (byteOrder env_nomount) 10),
                                             EvSyncCache 10]\<rparr>)"
proof -
  have a: "MountResolver_SyncCache env_gone (at_SyncCache env_gone 10 world1) 10 = Some ErrNotExist \<and>
           os_IsNotExist ErrNotExist"
    by (simp add: world_defs)
  have b: "pidCookieMap world1 (PutUint32 (byteOrder env_nomount) 10) = None \<and>
           MountResolver_SyncCache env_nomount (at_SyncCache env_nomount 10 world1) 10
             = Some (ErrOther ''permission denied'') \<and>
           \<not> os_IsNotExist (ErrOther ''permission denied'')"
    by (simp add: world_defs)
  show ?thesis
    using a b run_world1_gone
      snapshotProcess_mount_sync [of env_gone 10 world1]
      snapshotProcess_mount_sync [of env_nomount 10 world1]
    by blast
qed

text \<open>
  Claim C10. When \<open>snapshotProcess\<close> stops at the idempotency check, at the mount sync,
  at the container ID or at the readlink, it returns false and the userspace cache is as
  before. The cache changes only when the readlink has succeeded, and then by the one
  write of the provisional entry of this pid.
\<close>

theorem snapshotProcess_early_exit_keeps_cache:
  assumes "snapshotProcess E p w = (r, w')"
  shows "(pidCookieMap w (PutUint32 (byteOrder E) p) \<noteq> None \<longrightarrow> \<not> r \<and> entryCache w' = entryCache w) \<and>
    (sync_aborts E p w \<longrightarrow> \<not> r \<and> entryCache w' = entryCache w) \<and>
    ((\<exists>err. ContainerResolver_GetContainerID E (at_GetContainerID E p w) p = Inl err) \<longrightarrow>
       \<not> r \<and> entryCache w' = entryCache w) \<and>
    ((\<exists>err. os_Readlink E (at_Readlink E p w) p = Inl err) \<longrightarrow> \<not> r \<and> entryCache w' = entryCache w) \<and>
    (entryCache w' \<noteq> entryCache w \<longrightarrow>
       (\<exists>path. reads_exe E p w = Some path \<and>
          entryCache w' = (entryCache w)(p \<mapsto> Some \<lparr>PathnameStr = path, Timestamp = 0\<rparr>)))"
proof -
  have none: "reads_exe E p w = None \<Longrightarrow> \<not> r \<and> entryCache w' = entryCache w"
    using snapshotProcess_no_exe [OF assms] by simp
  have some: "\<And>path. reads_exe E p w = Some path \<Longrightarrow>
      entryCache w' = (entryCache w)(p \<mapsto> Some \<lparr>PathnameStr = path, Timestamp = 0\<rparr>)"
    by (rule snapshotProcess_exe [OF assms])
  have last: "entryCache w' \<noteq> entryCache w \<longrightarrow>
       (\<exists>path. reads_exe E p w = Some path \<and>
          entryCache w' = (entryCache w)(p \<mapsto> Some \<lparr>PathnameStr = path, Timestamp = 0\<rparr>))"
    using none some by (cases "reads_exe E p w") auto
  have c1: "pidCookieMap w (PutUint32 (byteOrder E) p) \<noteq> None \<longrightarrow> \<not> r \<and> entryCache w' = entryCache w"
    using none reads_exe_None_iff [of E p w] by simp
  have c2: "sync_aborts E p w \<longrightarrow> \<not> r \<and> entryCache w' = entryCache w"
    using none reads_exe_None_iff [of E p w] by simp
  have c3: "(\<exists>err. ContainerResolver_GetContainerID E (at_GetContainerID E p w) p = Inl err) \<longrightarrow>
       \<not> r \<and> entryCache w' = entryCache w"
    using none reads_exe_None_iff [of E p w] by simp
  have c4: "(\<exists>err. os_Readlink E (at_Readlink E p w) p = Inl err) \<longrightarrow> \<not> r \<and> entryCache w' = entryCache w"
    using none reads_exe_None_iff [of E p w] by simp
  show ?thesis
    by (intro conjI c1 c2 c3 c4 last)
qed

lemma run_world1_nomount:
  "snapshotProcess env_nomount 10 world1 =
     (False, world1\<lparr>trace := [EvGet PidCookie (PutUint32 LittleEndian 10), EvSyncCache 10]\<rparr>)"
  by (simp add: snapshotProcess_def table_defs world_defs Let_def)

theorem snapshotProcess_early_exit_keeps_cache_witness:
  "snapshotProcess env_nomount 10 world1 =
     (False, world1\<lparr>trace := [EvGet PidCookie (PutUint32 LittleEndian 10), EvSyncCache 10]\<rparr>) \<and>
   sync_aborts env_nomount 10 world1 \<and>
   entryCache (world1\<lparr>trace := [EvGet PidCookie (PutUint32 LittleEndian 10), EvSyncCache 10]\<rparr>)
     = entryCache world1 \<and>
   snapshotProcess env0 10 world1 = (True, world1_inserted) \<and>
   entryCache world1_inserted \<noteq> entryCache world1 \<and>
   (\<exists>path. reads_exe env0 10 world1 = Some path \<and>
      entryCache world1_inserted = (entryCache world1)(10 \<mapsto> Some \<lparr>PathnameStr = path, Timestamp = 0\<rparr>))"
proof -
  have a: "sync_aborts env_nomount 10 world1"
    by (simp add: at_defs world_defs)
  have "entryCache world1_inserted 10 \<noteq> entryCache world1 10"
    by (simp add: world_defs)
  then have b: "entryCache world1_inserted \<noteq> entryCache world1"
    by metis
  show ?thesis
    using a b run_world1 run_world1_nomount
      snapshotProcess_early_exit_keeps_cache [OF run_world1_nomount]
      snapshotProcess_early_exit_keeps_cache [OF run_world1]
    by blast
qed

subsection \<open>Resolve and DelEntry\<close>

lemma Resolve_hit: "entryCache w p = Some entry \<Longrightarrow> Resolve E p w = (entry, w)"
  by (simp add: Resolve_def)

lemma Resolve_miss: "entryCache w p = None \<Longrightarrow> Resolve E p w = resolve E p w"
  by (simp add: Resolve_def)

lemma resolve_kernel_entry: "fst (resolve E p w) = kernel_entry E p w"
  by (simp add: resolve_def kernel_entry_def table_defs Let_def split: option.split)

lemma resolve_no_cookie:
  "pidCookieMap w (PutUint32 (byteOrder E) p) = None \<Longrightarrow>
   resolve E p w = (None, w\<lparr>trace := trace w @ [EvGet PidCookie (PutUint32 (byteOrder E) p)]\<rparr>)"
  by (simp add: resolve_def table_defs)

lemma resolve_no_entry:
  "pidCookieMap w (PutUint32 (byteOrder E) p) = Some cookieb \<Longrightarrow> procCacheMap w cookieb = None \<Longrightarrow>
   resolve E p w =
     (None, w\<lparr>trace := trace w @ [EvGet PidCookie (PutUint32 (byteOrder E) p), EvGet ProcCache cookieb]\<rparr>)"
  by (simp add: resolve_def table_defs)

lemma resolve_bad_bytes:
  "pidCookieMap w (PutUint32 (byteOrder E) p) = Some cookieb \<Longrightarrow> procCacheMap w cookieb = Some entryb \<Longrightarrow>
   UnmarshalBinary E entryb = None \<Longrightarrow>
   resolve E p w =
     (None, w\<lparr>trace := trace w @ [EvGet PidCookie (PutUint32 (byteOrder E) p), EvGet ProcCache cookieb]\<rparr>)"
  by (simp add: resolve_def table_defs)

lemma resolve_no_path:
  "pidCookieMap w (PutUint32 (byteOrder E) p) = Some cookieb \<Longrightarrow> procCacheMap w cookieb = Some entryb \<Longrightarrow>
   UnmarshalBinary E entryb = Some c \<Longrightarrow>
   FileEvent_ResolveInode E
     (trace w @ [EvGet PidCookie (PutUint32 (byteOrder E) p), EvGet ProcCache cookieb]) (FileEvent c)
       = dentryPathKeyNotFound E \<Longrightarrow>
   resolve E p w =
     (None, w\<lparr>trace := trace w @ [EvGet PidCookie (PutUint32 (byteOrder E) p), EvGet ProcCache cookieb,
                                    EvResolveInode (FileEvent c)]\<rparr>)"
  by (simp add: resolve_def table_defs)

lemma resolve_Some:
  "resolve E p w = (Some entry, w') \<Longrightarrow>
   \<exists>cookieb entryb c.
     pidCookieMap w (PutUint32 (byteOrder E) p) = Some cookieb \<and> procCacheMap w cookieb = Some entryb \<and>
     UnmarshalBinary E entryb = Some c \<and>
     w' = w\<lparr>entryCache := (entryCache w)(p \<mapsto> Some entry),
            trace := trace w @ [EvGet PidCookie (PutUint32 (byteOrder E) p), EvGet ProcCache cookieb,
                                EvResolveInode (FileEvent c),
                                EvResolveMonotonicTimestamp (TimestampRaw c)]\<rparr>"
  by (auto simp add: resolve_def table_defs Let_def split: option.splits if_splits)

lemma resolve_None:
  "resolve E p w = (None, w') \<Longrightarrow> entryCache w' = entryCache w"
  by (auto simp add: resolve_def table_defs Let_def split: option.splits if_splits)

text \<open>
  Claim C3. \<open>Resolve\<close> of a pid that is in the userspace cache returns the cached value
  and leaves the state, trace included, as it is: no call is made. On a miss it returns
  what the construction from the kernel tables gives; when that is an entry, the calls
  made are the read of \<open>pid_cookie\<close>, the read of \<open>proc_cache\<close>, the path resolution and
  the time resolution, in this order, the entry is stored in the cache under the pid,
  the tables are as before, and a second \<open>Resolve\<close> returns the same entry with the state
  unchanged.
\<close>

theorem Resolve_cache_then_fallback:
  "(\<forall>entry. entryCache w p = Some entry \<longrightarrow> Resolve E p w = (entry, w)) \<and>
   (entryCache w p = None \<longrightarrow> fst (Resolve E p w) = kernel_entry E p w) \<and>
   (\<forall>entry w'. entryCache w p = None \<and> Resolve E p w = (Some entry, w') \<longrightarrow>
      (\<exists>cookieb entryb c.
         pidCookieMap w (PutUint32 (byteOrder E) p) = Some cookieb \<and>
         procCacheMap w cookieb = Some entryb \<and> UnmarshalBinary E entryb = Some c \<and>
         new_events w w' =
           [EvGet PidCookie (PutUint32 (byteOrder E) p), EvGet ProcCache cookieb,
            EvResolveInode (FileEvent c), EvResolveMonotonicTimestamp (TimestampRaw c)]) \<and>
      entryCache w' = (entryCache w)(p \<mapsto> Some entry) \<and>
      procCacheMap w' = procCacheMap w \<and> pidCookieMap w' = pidCookieMap w \<and>
      Resolve E p w' = (Some entry, w'))"
proof (intro conjI allI impI)
  fix entry
  assume "entryCache w p = Some entry"
  then show "Resolve E p w = (entry, w)"
    by (rule Resolve_hit)
next
  assume "entryCache w p = None"
  then show "fst (Resolve E p w) = kernel_entry E p w"
    by (simp add: Resolve_miss resolve_kernel_entry)
next
  fix entry w'
  assume a: "entryCache w p = None \<and> Resolve E p w = (Some entry, w')"
  then have "resolve E p w = (Some entry, w')"
    using Resolve_miss [of w p E] by simp
  from resolve_Some [OF this] obtain cookieb entryb c where
    k: "pidCookieMap w (PutUint32 (byteOrder E) p) = Some cookieb" "procCacheMap w cookieb = Some entryb"
       "UnmarshalBinary E entryb = Some c"
    and w': "w' = w\<lparr>entryCache := (entryCache w)(p \<mapsto> Some entry),
            trace := trace w @ [EvGet PidCookie (PutUint32 (byteOrder E) p), EvGet ProcCache cookieb,
                                EvResolveInode (FileEvent c),
                                EvResolveMonotonicTimestamp (TimestampRaw c)]\<rparr>"
    by blast
  have ev: "new_events w w' =
           [EvGet PidCookie (PutUint32 (byteOrder E) p), EvGet ProcCache cookieb,
            EvResolveInode (FileEvent c), EvResolveMonotonicTimestamp (TimestampRaw c)]"
    by (simp add: w' new_events_def)
  show "\<exists>cookieb entryb c.
         pidCookieMap w (PutUint32 (byteOrder E) p) = Some cookieb \<and>
         procCacheMap w cookieb = Some entryb \<and> UnmarshalBinary E entryb = Some c \<and>
         new_events w w' =
           [EvGet PidCookie (PutUint32 (byteOrder E) p), EvGet ProcCache cookieb,
            EvResolveInode (FileEvent c), EvResolveMonotonicTimestamp (TimestampRaw c)]"
    using k ev by blast
  show "entryCache w' = (entryCache w)(p \<mapsto> Some entry)"
    and "procCacheMap w' = procCacheMap w" and "pidCookieMap w' = pidCookieMap w"
    by (simp_all add: w')
  have "entryCache w' p = Some (Some entry)"
    by (simp add: w')
  then show "Resolve E p w' = (Some entry, w')"
    by (rule Resolve_hit)
qed

lemma run_world2:
  "Resolve env0 10 world2 = (Some \<lparr>PathnameStr = ''/bin/a'', Timestamp = 100\<rparr>, world2_resolved)"
  by (simp add: Resolve_def resolve_def table_defs world_defs Let_def)

theorem Resolve_cache_then_fallback_witness:
  "entryCache world2 10 = None \<and>
   Resolve env0 10 world2 = (Some \<lparr>PathnameStr = ''/bin/a'', Timestamp = 100\<rparr>, world2_resolved) \<and>
   kernel_entry env0 10 world2 = Some \<lparr>PathnameStr = ''/bin/a'', Timestamp = 100\<rparr> \<and>
   entryCache world2_resolved = (entryCache world2)(10 \<mapsto> Some \<lparr>PathnameStr = ''/bin/a'', Timestamp = 100\<rparr>) \<and>
   Resolve env0 10 world2_resolved = (Some \<lparr>PathnameStr = ''/bin/a'', Timestamp = 100\<rparr>, world2_resolved) \<and>
   entryCache world2_resolved 10 = Some (Some \<lparr>PathnameStr = ''/bin/a'', Timestamp = 100\<rparr>)"
proof -
  note T = Resolve_cache_then_fallback [of world2 10 env0]
  have miss: "entryCache world2 10 = None"
    by (simp add: world_defs)
  have k: "kernel_entry env0 10 world2 = Some \<lparr>PathnameStr = ''/bin/a'', Timestamp = 100\<rparr>"
    using T miss run_world2 by (metis fst_conv)
  have rest: "entryCache world2_resolved = (entryCache world2)(10 \<mapsto> Some \<lparr>PathnameStr = ''/bin/a'', Timestamp = 100\<rparr>) \<and>
   Resolve env0 10 world2_resolved = (Some \<lparr>PathnameStr = ''/bin/a'', Timestamp = 100\<rparr>, world2_resolved)"
    using T miss run_world2 by blast
  have hit: "entryCache world2_resolved 10 = Some (Some \<lparr>PathnameStr = ''/bin/a'', Timestamp = 100\<rparr>)"
    using rest by simp
  show ?thesis
    using miss run_world2 k rest hit by blast
qed

text \<open>
  Claim C4. For a pid that is not in the userspace cache, \<open>Resolve\<close> returns nil, with the
  cache and the tables as before (only the trace grows), when \<open>pid_cookie\<close> has no entry
  for the pid, when \<open>proc_cache\<close> has no entry for the cookie, when the bytes of the entry
  do not decode, and when the path resolver answers with the not-found sentinel. The
  cache changes only when the fallback returns an entry, the one built from the kernel
  tables.
\<close>

theorem Resolve_miss_not_cached:
  assumes "entryCache w p = None"
  shows
   "(pidCookieMap w (PutUint32 (byteOrder E) p) = None \<longrightarrow>
       Resolve E p w = (None, w\<lparr>trace := trace w @ [EvGet PidCookie (PutUint32 (byteOrder E) p)]\<rparr>)) \<and>
    (\<forall>cookieb. pidCookieMap w (PutUint32 (byteOrder E) p) = Some cookieb \<and> procCacheMap w cookieb = None \<longrightarrow>
       Resolve E p w =
         (None, w\<lparr>trace := trace w @ [EvGet PidCookie (PutUint32 (byteOrder E) p),
                                        EvGet ProcCache cookieb]\<rparr>)) \<and>
    (\<forall>cookieb entryb. pidCookieMap w (PutUint32 (byteOrder E) p) = Some cookieb \<and>
       procCacheMap w cookieb = Some entryb \<and> UnmarshalBinary E entryb = None \<longrightarrow>
       Resolve E p w =
         (None, w\<lparr>trace := trace w @ [EvGet PidCookie (PutUint32 (byteOrder E) p),
                                        EvGet ProcCache cookieb]\<rparr>)) \<and>
    (\<forall>cookieb entryb c. pidCookieMap w (PutUint32 (byteOrder E) p) = Some cookieb \<and>
       procCacheMap w cookieb = Some entryb \<and> UnmarshalBinary E entryb = Some c \<and>
       FileEvent_ResolveInode E
         (trace w @ [EvGet PidCookie (PutUint32 (byteOrder E) p), EvGet ProcCache cookieb]) (FileEvent c)
           = dentryPathKeyNotFound E \<longrightarrow>
       Resolve E p w =
         (None, w\<lparr>trace := trace w @ [EvGet PidCookie (PutUint32 (byteOrder E) p),
                                        EvGet ProcCache cookieb, EvResolveInode (FileEvent c)]\<rparr>)) \<and>
    (fst (Resolve E p w) = None \<longrightarrow> entryCache (snd (Resolve E p w)) = entryCache w) \<and>
    (entryCache (snd (Resolve E p w)) \<noteq> entryCache w \<longrightarrow>
       (\<exists>entry. fst (Resolve E p w) = Some entry \<and> kernel_entry E p w = Some entry))"
proof -
  have R: "Resolve E p w = resolve E p w"
    by (rule Resolve_miss [OF assms])
  have none: "fst (resolve E p w) = None \<longrightarrow> entryCache (snd (resolve E p w)) = entryCache w"
    using resolve_None [of E p w "snd (resolve E p w)"] by (metis prod.collapse)
  have changed: "entryCache (snd (resolve E p w)) \<noteq> entryCache w \<longrightarrow>
       (\<exists>entry. fst (resolve E p w) = Some entry \<and> kernel_entry E p w = Some entry)"
    using none resolve_kernel_entry [of E p w] by (cases "fst (resolve E p w)") auto
  show ?thesis
    unfolding R
    using none changed
    by (auto simp add: resolve_no_cookie resolve_no_entry resolve_bad_bytes resolve_no_path)
qed

theorem Resolve_miss_not_cached_witness:
  "entryCache world1 10 = None \<and>
   pidCookieMap world1 (PutUint32 (byteOrder env0) 10) = None \<and>
   Resolve env0 10 world1 =
     (None, world1\<lparr>trace := trace world1 @ [EvGet PidCookie (PutUint32 (byteOrder env0) 10)]\<rparr>) \<and>
   entryCache world2_orphan 10 = None \<and>
   pidCookieMap world2_orphan (PutUint32 (byteOrder env0) 10) = Some (PutUint32 LittleEndian 99) \<and>
   procCacheMap world2_orphan (PutUint32 LittleEndian 99) = None \<and>
   Resolve env0 10 world2_orphan =
     (None, world2_orphan\<lparr>trace := trace world2_orphan @
        [EvGet PidCookie (PutUint32 (byteOrder env0) 10), EvGet ProcCache (PutUint32 LittleEndian 99)]\<rparr>) \<and>
   entryCache world2_garbled 10 = None \<and>
   pidCookieMap world2_garbled (PutUint32 (byteOrder env0) 10) = Some (PutUint32 LittleEndian 99) \<and>
   procCacheMap world2_garbled (PutUint32 LittleEndian 99) = Some [] \<and>
   UnmarshalBinary env0 [] = None \<and>
   Resolve env0 10 world2_garbled =
     (None, world2_garbled\<lparr>trace := trace world2_garbled @
        [EvGet PidCookie (PutUint32 (byteOrder env0) 10), EvGet ProcCache (PutUint32 LittleEndian 99)]\<rparr>) \<and>
   entryCache world2 10 = None \<and>
   pidCookieMap world2 (PutUint32 (byteOrder env_nopath) 10) = Some (PutUint32 LittleEndian 99) \<and>
   procCacheMap world2 (PutUint32 LittleEndian 99) = Some [1, 2, 3] \<and>
   UnmarshalBinary env_nopath [1, 2, 3] = Some ProcCacheEntry_zero \<and>
   FileEvent_ResolveInode env_nopath
     (trace world2 @ [EvGet PidCookie (PutUint32 (byteOrder env_nopath) 10),
                      EvGet ProcCache (PutUint32 LittleEndian 99)]) (FileEvent ProcCacheEntry_zero)
       = dentryPathKeyNotFound env_nopath \<and>
   Resolve env_nopath 10 world2 =
     (None, world2\<lparr>trace := trace world2 @
        [EvGet PidCookie (PutUint32 (byteOrder env_nopath) 10), EvGet ProcCache (PutUint32 LittleEndian 99),
         EvResolveInode (FileEvent ProcCacheEntry_zero)]\<rparr>)"
proof -
  have a: "entryCache world1 10 = None" "pidCookieMap world1 (PutUint32 (byteOrder env0) 10) = None"
    by (simp_all add: world_defs)
  have b: "entryCache world2_orphan 10 = None"
    "pidCookieMap world2_orphan (PutUint32 (byteOrder env0) 10) = Some (PutUint32 LittleEndian 99)"
    "procCacheMap world2_orphan (PutUint32 LittleEndian 99) = None"
    by (simp_all add: world_defs)
  have c: "entryCache world2_garbled 10 = None"
    "pidCookieMap world2_garbled (PutUint32 (byteOrder env0) 10) = Some (PutUint32 LittleEndian 99)"
    "procCacheMap world2_garbled (PutUint32 LittleEndian 99) = Some []"
    "UnmarshalBinary env0 [] = None"
    by (simp_all add: world_defs)
  have d: "entryCache world2 10 = None"
    "pidCookieMap world2 (PutUint32 (byteOrder env_nopath) 10) = Some (PutUint32 LittleEndian 99)"
    "procCacheMap world2 (PutUint32 LittleEndian 99) = Some [1, 2, 3]"
    "UnmarshalBinary env_nopath [1, 2, 3] = Some ProcCacheEntry_zero"
    "FileEvent_ResolveInode env_nopath
     (trace world2 @ [EvGet PidCookie (PutUint32 (byteOrder env_nopath) 10),
                      EvGet ProcCache (PutUint32 LittleEndian 99)]) (FileEvent ProcCacheEntry_zero)
       = dentryPathKeyNotFound env_nopath"
    by (simp_all add: world_defs)
  note Ta = Resolve_miss_not_cached [OF a(1), of env0]
  note Tb = Resolve_miss_not_cached [OF b(1), of env0]
  note Tc = Resolve_miss_not_cached [OF c(1), of env0]
  note Td = Resolve_miss_not_cached [OF d(1), of env_nopath]
  have ra: "Resolve env0 10 world1 =
     (None, world1\<lparr>trace := trace world1 @ [EvGet PidCookie (PutUint32 (byteOrder env0) 10)]\<rparr>)"
    using Ta a by blast
  have rb: "Resolve env0 10 world2_orphan =
     (None, world2_orphan\<lparr>trace := trace world2_orphan @
        [EvGet PidCookie (PutUint32 (byteOrder env0) 10), EvGet ProcCache (PutUint32 LittleEndian 99)]\<rparr>)"
    using Tb b by blast
  have rc: "Resolve env0 10 world2_garbled =
     (None, world2_garbled\<lparr>trace := trace world2_garbled @
        [EvGet PidCookie (PutUint32 (byteOrder env0) 10), EvGet ProcCache (PutUint32 LittleEndian 99)]\<rparr>)"
    using Tc c by blast
  have rd: "Resolve env_nopath 10 world2 =
     (None, world2\<lparr>trace := trace world2 @
        [EvGet PidCookie (PutUint32 (byteOrder env_nopath) 10), EvGet ProcCache (PutUint32 LittleEndian 99),
         EvResolveInode (FileEvent ProcCacheEntry_zero)]\<rparr>)"
    using Td d by blast
  show ?thesis
    by (intro conjI a b c d ra rb rc rd)
qed

text \<open>
  Claim C8. \<open>DelEntry\<close> of a pid removes the pid from the userspace cache and the pid's
  entry from \<open>pid_cookie\<close>, by one \<open>Delete\<close>; the cache entries of the other pids, the
  other entries of \<open>pid_cookie\<close>, \<open>proc_cache\<close> (the entry of the pid's cookie included)
  and \<open>inode_numlower\<close> are as before. After it the kernel fallback \<open>resolve\<close> returns
  nil for the pid, and so does \<open>Resolve\<close>.
\<close>

theorem DelEntry_cleanup:
  "entryCache (DelEntry E p w) = (entryCache w)(p := None) \<and>
   pidCookieMap (DelEntry E p w) = (pidCookieMap w)(PutUint32 (byteOrder E) p := None) \<and>
   procCacheMap (DelEntry E p w) = procCacheMap w \<and>
   inodeNumlowerMap (DelEntry E p w) = inodeNumlowerMap w \<and>
   trace (DelEntry E p w) = trace w @ [EvDelete PidCookie (PutUint32 (byteOrder E) p)] \<and>
   fst (resolve E p (DelEntry E p w)) = None \<and>
   entryCache (snd (resolve E p (DelEntry E p w))) = (entryCache w)(p := None) \<and>
   fst (Resolve E p (DelEntry E p w)) = None"
proof -
  let ?w = "DelEntry E p w"
  have st: "entryCache ?w = (entryCache w)(p := None)"
    "pidCookieMap ?w = (pidCookieMap w)(PutUint32 (byteOrder E) p := None)"
    "procCacheMap ?w = procCacheMap w" "inodeNumlowerMap ?w = inodeNumlowerMap w"
    "trace ?w = trace w @ [EvDelete PidCookie (PutUint32 (byteOrder E) p)]"
    by (simp_all add: DelEntry_def table_defs Let_def)
  have gone: "pidCookieMap ?w (PutUint32 (byteOrder E) p) = None"
    by (simp add: st)
  have r: "resolve E p ?w = (None, ?w\<lparr>trace := trace ?w @ [EvGet PidCookie (PutUint32 (byteOrder E) p)]\<rparr>)"
    by (rule resolve_no_cookie [OF gone])
  have "entryCache ?w p = None"
    by (simp add: st)
  then have R: "Resolve E p ?w = resolve E p ?w"
    by (rule Resolve_miss)
  show ?thesis
    by (simp add: st R r)
qed

theorem DelEntry_cleanup_witness:
  "entryCache (DelEntry env0 10 world1_inserted) 10 = None \<and>
   pidCookieMap (DelEntry env0 10 world1_inserted) (PutUint32 LittleEndian 10) = None \<and>
   procCacheMap (DelEntry env0 10 world1_inserted) (PutUint32 LittleEndian 99) = Some [1, 2, 3] \<and>
   fst (resolve env0 10 (DelEntry env0 10 world1_inserted)) = None \<and>
   fst (Resolve env0 10 (DelEntry env0 10 world1_inserted)) = None"
  using DelEntry_cleanup [of env0 10 world1_inserted] by (simp add: world_defs)

end
